theory Spec2Isabelle
  imports Main
begin

section \<open>The roster member (generator/models/member.py)\<close>

text \<open>
  \<^verbatim>\<open>
  class Member:
      id = 0

      def __init__(self, first_name="", last_name="", proportion=100, family=0,
                   sponsor_for_family=None):
          self.first_name = first_name
          self.last_name = last_name
          self.proportion = proportion
          self.family = family
          self.sponsor_for_family = sponsor_for_family
  \<close>
  An instance holds exactly the five attributes that \<open>__init__\<close> stores. Names are
  strings, \<open>proportion\<close> and \<open>family\<close> are Python integers, and
  \<open>sponsor_for_family\<close> is either \<open>None\<close> or a family number.
\<close>

record member =
  first_name :: string
  last_name :: string
  proportion :: int
  family :: int
  sponsor_for_family :: "int option"

subsection \<open>The call \<open>Member(k1=v1, k2=v2, ...)\<close> as Python runs it\<close>

text \<open>
  A caller may write any keyword with any value, so a call is a list of pairs of a
  keyword and a value. Python raises \<open>TypeError\<close> for a keyword that is no parameter
  of the signature (\<open>__init__\<close> has no \<open>**kwargs\<close>) and for a keyword that
  reaches the call twice (through unpacked dictionaries; written out twice, the call
  does not compile); neither leaves an instance behind. Arguments are passed by
  keyword, as in every call of the tests.
\<close>

datatype py_val = PyNone | PyInt int | PyStr string

datatype py_error = TypeError

text \<open>The signature of \<open>__init__\<close> after \<open>self\<close>: each parameter with its default.\<close>

definition init_signature :: "(string \<times> py_val) list" where
  "init_signature =
     [(''first_name'', PyStr ''''), (''last_name'', PyStr ''''), (''proportion'', PyInt 100),
      (''family'', PyInt 0), (''sponsor_for_family'', PyNone)]"

definition param_names :: "string list" where
  "param_names = map fst init_signature"

text \<open>
  Binding the keyword arguments to the parameters, left to right; \<open>bound\<close> holds the
  parameters bound so far.
\<close>

fun bind_keywords ::
  "(string \<times> py_val) list \<Rightarrow> (string \<times> py_val) list \<Rightarrow> py_error + (string \<times> py_val) list"
where
  "bind_keywords bound [] = Inr bound"
| "bind_keywords bound ((k, v) # kws) =
     (if k \<notin> set param_names then Inl TypeError
      else if k \<in> fst ` set bound then Inl TypeError
      else bind_keywords (bound @ [(k, v)]) kws)"

text \<open>
  The body of \<open>__init__\<close>: one attribute per parameter, in the order of the five
  assignments, holding the bound value or else the default. The result is the
  instance's attribute dictionary.
\<close>

definition init_body :: "(string \<times> py_val) list \<Rightarrow> (string \<times> py_val) list" where
  "init_body bound =
     map (\<lambda>(p, d). (p, case map_of bound p of Some v \<Rightarrow> v | None \<Rightarrow> d)) init_signature"

definition Member_call :: "(string \<times> py_val) list \<Rightarrow> py_error + (string \<times> py_val) list" where
  "Member_call kwargs =
     (case bind_keywords [] kwargs of Inl e \<Rightarrow> Inl e | Inr bound \<Rightarrow> Inr (init_body bound))"

subsection \<open>The same call on typed arguments\<close>

text \<open>
  Where every argument has the type of its attribute, the keywords are the five
  parameters and the instance is a \<open>member\<close> record. \<open>kw_name\<close> and \<open>kw_value\<close> give
  the keyword and the Python value that a typed argument stands for.
\<close>

datatype kwarg =
    Kw_first_name string
  | Kw_last_name string
  | Kw_proportion int
  | Kw_family int
  | Kw_sponsor_for_family "int option"

fun kw_name :: "kwarg \<Rightarrow> string" where
  "kw_name (Kw_first_name v) = ''first_name''"
| "kw_name (Kw_last_name v) = ''last_name''"
| "kw_name (Kw_proportion v) = ''proportion''"
| "kw_name (Kw_family v) = ''family''"
| "kw_name (Kw_sponsor_for_family v) = ''sponsor_for_family''"

fun py_family :: "int option \<Rightarrow> py_val" where
  "py_family None = PyNone"
| "py_family (Some f) = PyInt f"

fun kw_value :: "kwarg \<Rightarrow> py_val" where
  "kw_value (Kw_first_name v) = PyStr v"
| "kw_value (Kw_last_name v) = PyStr v"
| "kw_value (Kw_proportion v) = PyInt v"
| "kw_value (Kw_family v) = PyInt v"
| "kw_value (Kw_sponsor_for_family v) = py_family v"

text \<open>The parameter defaults of the signature.\<close>

definition init_defaults :: member where
  "init_defaults =
     \<lparr>first_name = '''', last_name = '''', proportion = 100, family = 0,
      sponsor_for_family = None\<rparr>"

text \<open>One typed argument takes the place of its parameter's default.\<close>

fun bind_kwarg :: "member \<Rightarrow> kwarg \<Rightarrow> member" where
  "bind_kwarg m (Kw_first_name v) = m\<lparr>first_name := v\<rparr>"
| "bind_kwarg m (Kw_last_name v) = m\<lparr>last_name := v\<rparr>"
| "bind_kwarg m (Kw_proportion v) = m\<lparr>proportion := v\<rparr>"
| "bind_kwarg m (Kw_family v) = m\<lparr>family := v\<rparr>"
| "bind_kwarg m (Kw_sponsor_for_family v) = m\<lparr>sponsor_for_family := v\<rparr>"

text \<open>
  Binding the typed arguments left to right; \<open>seen\<close> holds the keywords bound so far,
  and a keyword given twice raises \<open>TypeError\<close>.
\<close>

fun bind_kwargs :: "string list \<Rightarrow> member \<Rightarrow> kwarg list \<Rightarrow> py_error + member" where
  "bind_kwargs seen m [] = Inr m"
| "bind_kwargs seen m (a # as) =
     (if kw_name a \<in> set seen then Inl TypeError
      else bind_kwargs (kw_name a # seen) (bind_kwarg m a) as)"

definition Member_init :: "kwarg list \<Rightarrow> py_error + member" where
  "Member_init kwargs = bind_kwargs [] init_defaults kwargs"

text \<open>The attribute dictionary of a typed instance.\<close>

definition attrs_of :: "member \<Rightarrow> (string \<times> py_val) list" where
  "attrs_of m =
     [(''first_name'', PyStr (first_name m)), (''last_name'', PyStr (last_name m)),
      (''proportion'', PyInt (proportion m)), (''family'', PyInt (family m)),
      (''sponsor_for_family'', py_family (sponsor_for_family m))]"

subsection \<open>The derived properties\<close>

text \<open>
  \<^verbatim>\<open>
  @property
  def name(self):
      return self.first_name + " " + self.last_name

  @property
  def is_sponsor(self):
      return self.sponsor_for_family is not None
  \<close>
\<close>

definition name :: "member \<Rightarrow> string" where
  "name m = first_name m @ '' '' @ last_name m"

definition is_sponsor :: "member \<Rightarrow> bool" where
  "is_sponsor m = (sponsor_for_family m \<noteq> None)"

section \<open>The slot pool\<close>

text \<open>
  The generator module is not among the source files; only the member class above and
  the tests are. The pool is therefore written from the spec, whose words are: "for each
  member, append \<open>round(proportion / 50)\<close> references to that member", with the
  examples "25 \<rightarrow> 0 entries, 75 \<rightarrow> 2 entries", and "a slot pool entry is simply a
  reference to a Member, with multiplicity".
\<close>

text \<open>
  Modelled from the spec: \<open>round(p / d)\<close> of the quota rule, for a positive \<open>d\<close>;
  the generator that computes it is missing. The result is the integer nearest to the
  exact quotient, a tie going to the even neighbour, which is what sends 25 to 0 and 75
  to 2.
\<close>

definition py_round_div :: "int \<Rightarrow> int \<Rightarrow> int" where
  "py_round_div p d =
     (let q = p div d; r = p mod d
      in if 2 * r < d then q
         else if d < 2 * r then q + 1
         else if even q then q else q + 1)"

text \<open>
  Modelled from the spec: the number of entries appended for one member, "multiplicity
  per member = \<open>round(proportion / 50)\<close>"; the generator's loop is missing. Nothing
  is appended a negative number of times, so a negative rounding result gives no entry.
\<close>

definition slot_count :: "member \<Rightarrow> nat" where
  "slot_count m = nat (py_round_div (proportion m) 50)"

text \<open>
  Modelled from the spec: the loop of \<open>build(members)\<close>, missing with the generator.
  Members are compared by identity (the class defines no equality), and two members of
  a roster may hold the same attribute values. A reference to a member is therefore its
  position in the roster, and the pot is a list of positions. \<open>populate_from k ms pot\<close>
  runs the loop over the members \<open>ms\<close> that start at position \<open>k\<close>, appending to
  \<open>pot\<close>.
\<close>

fun populate_from :: "nat \<Rightarrow> member list \<Rightarrow> nat list \<Rightarrow> nat list" where
  "populate_from k [] pot = pot"
| "populate_from k (m # ms) pot =
     populate_from (Suc k) ms (pot @ replicate (slot_count m) k)"

text \<open>
  Modelled from the spec: \<open>build(members)\<close>, which the tests call
  \<open>Generator._populate_pot\<close>; the generator is missing. The pot starts empty.
\<close>

definition populate_pot :: "member list \<Rightarrow> nat list" where
  "populate_pot members = populate_from 0 members []"

section \<open>Properties of the member\<close>

subsection \<open>The derived name\<close>

text \<open>
  C8 as stated: \<open>name\<close> is \<open>first_name\<close> followed directly by \<open>last_name\<close>.
  The code puts a space between them, so the statement fails, for instance for
  \<open>Member(first_name="Ada", last_name="Lovelace")\<close>.
\<close>

theorem name_not_plain_concatenation:
  "name \<lparr>first_name = ''Ada'', last_name = ''Lovelace'', proportion = 100,
          family = 0, sponsor_for_family = None\<rparr> = ''Ada Lovelace''
   \<and> name \<lparr>first_name = ''Ada'', last_name = ''Lovelace'', proportion = 100,
          family = 0, sponsor_for_family = None\<rparr>
       \<noteq> first_name \<lparr>first_name = ''Ada'', last_name = ''Lovelace'', proportion = 100,
          family = 0, sponsor_for_family = None\<rparr>
         @ last_name \<lparr>first_name = ''Ada'', last_name = ''Lovelace'', proportion = 100,
          family = 0, sponsor_for_family = None\<rparr>"
  by (simp add: name_def)

text \<open>
  C8, amended: for every member, \<open>name\<close> is \<open>first_name\<close>, one space, then
  \<open>last_name\<close>. Its length is therefore one more than the two lengths together, and
  it is never the two names put directly one after the other.
\<close>

theorem name_is_first_space_last:
  "name m = first_name m @ '' '' @ last_name m
   \<and> length (name m) = length (first_name m) + 1 + length (last_name m)
   \<and> name m \<noteq> first_name m @ last_name m"
proof -
  have eq: "name m = first_name m @ '' '' @ last_name m"
    by (simp add: name_def)
  then have len: "length (name m) = length (first_name m) + 1 + length (last_name m)"
    by simp
  have "length (first_name m @ last_name m) \<noteq> length (name m)"
    using len by simp
  then have "name m \<noteq> first_name m @ last_name m"
    by auto
  with eq len show ?thesis by blast
qed

subsection \<open>The constructor\<close>

text \<open>
  A call succeeds exactly when every keyword is a parameter and no keyword repeats; it
  then returns the body's attribute dictionary.
\<close>

lemma bind_keywords_eq:
  "bind_keywords bound kws =
     (if set (map fst kws) \<subseteq> set param_names \<and> distinct (map fst kws)
         \<and> fst ` set kws \<inter> fst ` set bound = {}
      then Inr (bound @ kws) else Inl TypeError)"
proof (induction kws arbitrary: bound)
  case Nil
  then show ?case by simp
next
  case (Cons kv kws)
  obtain k v where kv: "kv = (k, v)" by (cases kv)
  show ?case
    unfolding kv by (auto simp add: Cons.IH image_Un)
qed

lemma Member_call_eq:
  "Member_call kwargs =
     (if set (map fst kwargs) \<subseteq> set param_names \<and> distinct (map fst kwargs)
      then Inr (init_body kwargs) else Inl TypeError)"
  by (simp add: Member_call_def bind_keywords_eq)

lemma map_of_init_body:
  "map_of (init_body bound) k =
     (case map_of init_signature k of None \<Rightarrow> None
      | Some d \<Rightarrow> Some (case map_of bound k of Some v \<Rightarrow> v | None \<Rightarrow> d))"
  by (simp add: init_body_def init_signature_def)

lemma fst_init_body: "map fst (init_body bound) = param_names"
  by (simp add: init_body_def param_names_def init_signature_def)

lemma distinct_param_names: "distinct (map fst init_signature)"
  by (simp add: init_signature_def)

text \<open>
  The typed call is the Python call on the typed arguments: it raises when the Python
  call raises, and otherwise its record holds the attributes the Python call stores.
\<close>

lemma kw_name_param: "kw_name a \<in> set param_names"
  by (cases a) (simp_all add: param_names_def init_signature_def)

lemma init_body_snoc:
  assumes "kw_name a \<notin> fst ` set bound" and "init_body bound = attrs_of m"
  shows "init_body (bound @ [(kw_name a, kw_value a)]) = attrs_of (bind_kwarg m a)"
proof -
  from assms(1) have none: "map_of bound (kw_name a) = None"
    by (simp add: map_of_eq_None_iff)
  show ?thesis
    using assms(2) none
    by (cases a)
      (auto simp add: init_body_def init_signature_def attrs_of_def map_add_def
            split: option.splits)
qed

lemma bind_kwargs_refines:
  assumes "set seen = fst ` set bound" and "init_body bound = attrs_of m"
  shows "(case bind_keywords bound (map (\<lambda>a. (kw_name a, kw_value a)) kws) of
            Inl e \<Rightarrow> Inl e | Inr b \<Rightarrow> Inr (init_body b))
         = map_sum id attrs_of (bind_kwargs seen m kws)"
  using assms
proof (induction kws arbitrary: seen bound m)
  case Nil
  then show ?case by simp
next
  case (Cons a kws)
  show ?case
  proof (cases "kw_name a \<in> set seen")
    case True
    with Cons.prems(1) show ?thesis by (simp add: kw_name_param)
  next
    case False
    with Cons.prems(1) have fresh: "kw_name a \<notin> fst ` set bound" by simp
    have seen': "set (kw_name a # seen) = fst ` set (bound @ [(kw_name a, kw_value a)])"
      using Cons.prems(1) by auto
    have body': "init_body (bound @ [(kw_name a, kw_value a)]) = attrs_of (bind_kwarg m a)"
      using fresh Cons.prems(2) by (rule init_body_snoc)
    from Cons.IH [OF seen' body'] False fresh show ?thesis
      by (simp add: kw_name_param)
  qed
qed

lemma Member_init_refines:
  "Member_call (map (\<lambda>a. (kw_name a, kw_value a)) kwargs)
     = map_sum id attrs_of (Member_init kwargs)"
  unfolding Member_call_def Member_init_def
  by (rule bind_kwargs_refines)
    (simp_all add: init_body_def init_signature_def attrs_of_def init_defaults_def)

text \<open>
  C9 as stated: a member can be constructed with \<open>end_date\<close> and
  \<open>sponsored_by_family\<close> alongside the five parameters, and the construction
  succeeds. On this class it does not:
  \<open>Member(first_name="Ada", family=3)\<close> builds an instance, while the same call with
  \<open>end_date="2017-01-03"\<close> added raises \<open>TypeError\<close>, and so does
  \<open>Member(family=200, sponsored_by_family=100)\<close>.
\<close>

theorem Member_call_rejects_end_date:
  "Member_call [(''first_name'', PyStr ''Ada''), (''family'', PyInt 3)] =
     Inr [(''first_name'', PyStr ''Ada''), (''last_name'', PyStr ''''),
          (''proportion'', PyInt 100), (''family'', PyInt 3),
          (''sponsor_for_family'', PyNone)]
   \<and> Member_call [(''first_name'', PyStr ''Ada''), (''family'', PyInt 3),
                  (''end_date'', PyStr ''2017-01-03'')] = Inl TypeError
   \<and> Member_call [(''family'', PyInt 200), (''sponsored_by_family'', PyInt 100)]
       = Inl TypeError"
  by (simp add: Member_call_def param_names_def init_signature_def init_body_def)

text \<open>
  C9, amended: a member is constructed from the keywords \<open>first_name\<close>,
  \<open>last_name\<close>, \<open>proportion\<close>, \<open>family\<close> and \<open>sponsor_for_family\<close>, each
  optional and given at most once. Exactly such a construction succeeds; the instance
  then has these five attributes and no other, each holding the value given for it, or
  its default when none was given. \<open>end_date\<close> and \<open>sponsored_by_family\<close> are not
  among them: a construction that passes either raises \<open>TypeError\<close>.
\<close>

theorem Member_call_attribute_surface:
  "param_names =
     [''first_name'', ''last_name'', ''proportion'', ''family'', ''sponsor_for_family'']
   \<and> ((\<exists>inst. Member_call kwargs = Inr inst)
        = (set (map fst kwargs) \<subseteq> set param_names \<and> distinct (map fst kwargs)))
   \<and> (\<forall>inst. Member_call kwargs = Inr inst \<longrightarrow>
         map fst inst = param_names
         \<and> (\<forall>k v. (k, v) \<in> set kwargs \<longrightarrow> map_of inst k = Some v)
         \<and> (\<forall>k d. (k, d) \<in> set init_signature \<and> k \<notin> fst ` set kwargs
                \<longrightarrow> map_of inst k = Some d))
   \<and> (''end_date'' \<in> fst ` set kwargs \<or> ''sponsored_by_family'' \<in> fst ` set kwargs
        \<longrightarrow> Member_call kwargs = Inl TypeError)"
proof -
  have names: "param_names =
      [''first_name'', ''last_name'', ''proportion'', ''family'', ''sponsor_for_family'']"
    by (simp add: param_names_def init_signature_def)
  have succeeds: "(\<exists>inst. Member_call kwargs = Inr inst)
      = (set (map fst kwargs) \<subseteq> set param_names \<and> distinct (map fst kwargs))"
    by (simp add: Member_call_eq)
  have stored: "map fst inst = param_names
         \<and> (\<forall>k v. (k, v) \<in> set kwargs \<longrightarrow> map_of inst k = Some v)
         \<and> (\<forall>k d. (k, d) \<in> set init_signature \<and> k \<notin> fst ` set kwargs
                \<longrightarrow> map_of inst k = Some d)"
    if ok: "Member_call kwargs = Inr inst" for inst
  proof -
    from ok have sub: "set (map fst kwargs) \<subseteq> set param_names"
      and dist: "distinct (map fst kwargs)"
      and inst: "inst = init_body kwargs"
      by (simp_all add: Member_call_eq split: if_splits)
    have given: "map_of inst k = Some v" if kv: "(k, v) \<in> set kwargs" for k v
    proof -
      from dist kv have "map_of kwargs k = Some v" by simp
      moreover from kv sub have "k \<in> set param_names" by force
      then obtain d where "map_of init_signature k = Some d"
        unfolding param_names_def by (metis map_of_eq_None_iff not_Some_eq set_map)
      ultimately show ?thesis by (simp add: inst map_of_init_body)
    qed
    have default: "map_of inst k = Some d"
      if kd: "(k, d) \<in> set init_signature" and absent: "k \<notin> fst ` set kwargs" for k d
    proof -
      from kd have "map_of init_signature k = Some d"
        using distinct_param_names by simp
      moreover from absent have "map_of kwargs k = None"
        by (simp add: map_of_eq_None_iff)
      ultimately show ?thesis by (simp add: inst map_of_init_body)
    qed
    from given default show ?thesis by (simp add: inst fst_init_body)
  qed
  have rejected: "Member_call kwargs = Inl TypeError"
    if "''end_date'' \<in> fst ` set kwargs \<or> ''sponsored_by_family'' \<in> fst ` set kwargs"
  proof -
    from that have "\<not> set (map fst kwargs) \<subseteq> set param_names"
      by (auto simp add: names)
    then show ?thesis by (simp add: Member_call_eq)
  qed
  from names succeeds stored rejected show ?thesis by blast
qed

text \<open>
  \<open>Member(first_name="Ada", family=3)\<close> is built and holds the two values given and
  the three defaults; \<open>Member(family=3, end_date="2017-01-03")\<close> is not built.
\<close>

theorem Member_call_attribute_surface_witness:
  "Member_call [(''first_name'', PyStr ''Ada''), (''family'', PyInt 3)] =
     Inr [(''first_name'', PyStr ''Ada''), (''last_name'', PyStr ''''),
          (''proportion'', PyInt 100), (''family'', PyInt 3),
          (''sponsor_for_family'', PyNone)]
   \<and> map_of [(''first_name'', PyStr ''Ada''), (''last_name'', PyStr ''''),
          (''proportion'', PyInt 100), (''family'', PyInt 3),
          (''sponsor_for_family'', PyNone)] ''family'' = Some (PyInt 3)
   \<and> map_of [(''first_name'', PyStr ''Ada''), (''last_name'', PyStr ''''),
          (''proportion'', PyInt 100), (''family'', PyInt 3),
          (''sponsor_for_family'', PyNone)] ''proportion'' = Some (PyInt 100)
   \<and> ''end_date'' \<in> fst ` set [(''family'', PyInt 3), (''end_date'', PyStr ''2017-01-03'')]
   \<and> Member_call [(''family'', PyInt 3), (''end_date'', PyStr ''2017-01-03'')]
       = Inl TypeError"
proof -
  let ?given = "[(''first_name'', PyStr ''Ada''), (''family'', PyInt 3)]"
  let ?inst = "[(''first_name'', PyStr ''Ada''), (''last_name'', PyStr ''''),
          (''proportion'', PyInt 100), (''family'', PyInt 3),
          (''sponsor_for_family'', PyNone)]"
  let ?dated = "[(''family'', PyInt 3), (''end_date'', PyStr ''2017-01-03'')]"
  have built: "Member_call ?given = Inr ?inst"
    by (simp add: Member_call_def param_names_def init_signature_def init_body_def)
  have fam: "(''family'', PyInt 3) \<in> set ?given" by simp
  have dflt: "(''proportion'', PyInt 100) \<in> set init_signature
              \<and> ''proportion'' \<notin> fst ` set ?given"
    by (simp add: init_signature_def)
  have dated: "''end_date'' \<in> fst ` set ?dated" by simp
  from Member_call_attribute_surface [of ?given] built fam
  have "map_of ?inst ''family'' = Some (PyInt 3)" by blast
  moreover from Member_call_attribute_surface [of ?given] built dflt
  have "map_of ?inst ''proportion'' = Some (PyInt 100)" by blast
  moreover from Member_call_attribute_surface [of ?dated] dated
  have "Member_call ?dated = Inl TypeError" by blast
  ultimately show ?thesis using built dated by blast
qed

text \<open>
  C10: a member constructed with no arguments has empty first and last names (so its
  \<open>name\<close> is a single space), proportion 100, family 0 and no sponsored family, and
  is not a sponsor. A member is a sponsor exactly when \<open>sponsor_for_family\<close> is not
  \<open>None\<close>: for every family number \<open>f\<close>, and for 0 in particular, setting or
  constructing with \<open>sponsor_for_family = f\<close> gives a sponsor.
\<close>

theorem Member_init_defaults:
  "Member_init [] =
     Inr \<lparr>first_name = '''', last_name = '''', proportion = 100, family = 0,
          sponsor_for_family = None\<rparr>
   \<and> name \<lparr>first_name = '''', last_name = '''', proportion = 100, family = 0,
          sponsor_for_family = None\<rparr> = '' ''
   \<and> \<not> is_sponsor \<lparr>first_name = '''', last_name = '''', proportion = 100, family = 0,
          sponsor_for_family = None\<rparr>
   \<and> is_sponsor m = (sponsor_for_family m \<noteq> None)
   \<and> is_sponsor (m\<lparr>sponsor_for_family := Some f\<rparr>)
   \<and> is_sponsor (m\<lparr>sponsor_for_family := Some 0\<rparr>)
   \<and> Member_init [Kw_sponsor_for_family (Some 0)] =
     Inr \<lparr>first_name = '''', last_name = '''', proportion = 100, family = 0,
          sponsor_for_family = Some 0\<rparr>
   \<and> is_sponsor \<lparr>first_name = '''', last_name = '''', proportion = 100, family = 0,
          sponsor_for_family = Some 0\<rparr>"
  by (simp add: Member_init_def init_defaults_def name_def is_sponsor_def)

section \<open>Properties of the slot pool\<close>

lemma py_round_div_nearest: "\<bar>50 * py_round_div p 50 - p\<bar> \<le> 25"
  unfolding py_round_div_def Let_def by (auto; presburger)

lemma py_round_div_tie_even:
  "\<bar>50 * py_round_div p 50 - p\<bar> = 25 \<Longrightarrow> even (py_round_div p 50)"
  unfolding py_round_div_def Let_def by (auto split: if_splits; presburger)

lemma py_round_div_nonneg: "0 \<le> p \<Longrightarrow> 0 \<le> py_round_div p 50"
  unfolding py_round_div_def Let_def
  by (auto simp: pos_imp_zdiv_nonneg_iff)

lemma count_list_replicate: "count_list (replicate n x) y = (if x = y then n else 0)"
  by (induction n) auto

text \<open>
  The loop invariant: running the loop from position \<open>k\<close> adds, for a position \<open>i\<close>
  it passes, the slot count of the member at \<open>i\<close>, and nothing for any other position.
\<close>

lemma count_populate_from:
  "count_list (populate_from k ms pot) i =
     count_list pot i + (if k \<le> i \<and> i < k + length ms then slot_count (ms ! (i - k)) else 0)"
proof (induction ms arbitrary: k pot)
  case Nil
  then show ?case by simp
next
  case (Cons m ms)
  have "count_list (populate_from (Suc k) ms (pot @ replicate (slot_count m) k)) i =
          count_list (pot @ replicate (slot_count m) k) i
          + (if Suc k \<le> i \<and> i < Suc k + length ms then slot_count (ms ! (i - Suc k)) else 0)"
    by (rule Cons.IH)
  then show ?case
    by (cases "i = k") (auto simp add: count_list_replicate nth_Cons')
qed

lemma length_populate_from:
  "length (populate_from k ms pot) = length pot + sum_list (map slot_count ms)"
  by (induction ms arbitrary: k pot) simp_all

text \<open>
  C1: for every member of the roster (the member at position \<open>i\<close>) whose proportion is
  not negative, the pot built from the roster holds exactly \<open>round(proportion / 50)\<close>
  entries that refer to that member; a proportion of 100 gives exactly 2 entries, 50
  gives exactly 1 and 0 gives none.
\<close>

theorem populate_pot_quota:
  assumes "i < length members" and "0 \<le> proportion (members ! i)"
  shows "int (count_list (populate_pot members) i) = py_round_div (proportion (members ! i)) 50
       \<and> (proportion (members ! i) = 100 \<longrightarrow> count_list (populate_pot members) i = 2)
       \<and> (proportion (members ! i) = 50 \<longrightarrow> count_list (populate_pot members) i = 1)
       \<and> (proportion (members ! i) = 0 \<longrightarrow> count_list (populate_pot members) i = 0)"
proof -
  have cnt: "count_list (populate_pot members) i = slot_count (members ! i)"
    using assms(1) by (simp add: populate_pot_def count_populate_from)
  have "0 \<le> py_round_div (proportion (members ! i)) 50"
    using assms(2) by (rule py_round_div_nonneg)
  then have quota: "int (count_list (populate_pot members) i)
                      = py_round_div (proportion (members ! i)) 50"
    using cnt by (simp add: slot_count_def)
  have r100: "py_round_div 100 50 = 2" and r50: "py_round_div 50 50 = 1"
    and r0: "py_round_div 0 50 = 0"
    by (simp_all add: py_round_div_def)
  from quota r100 r50 r0 show ?thesis by auto
qed

text \<open>
  The roster \<open>[Member(proportion=100), Member(proportion=50), Member(proportion=0)]\<close>:
  the pot is \<open>[0, 0, 1]\<close>, two entries for the first member, one for the second, none
  for the third.
\<close>

theorem populate_pot_quota_witness:
  "(0::nat) < length
      [\<lparr>first_name = '''', last_name = '''', proportion = 100, family = 0,
        sponsor_for_family = None\<rparr>,
       \<lparr>first_name = '''', last_name = '''', proportion = 50, family = 0,
        sponsor_for_family = None\<rparr>,
       \<lparr>first_name = '''', last_name = '''', proportion = 0, family = 0,
        sponsor_for_family = None\<rparr>]
   \<and> count_list (populate_pot
      [\<lparr>first_name = '''', last_name = '''', proportion = 100, family = 0,
        sponsor_for_family = None\<rparr>,
       \<lparr>first_name = '''', last_name = '''', proportion = 50, family = 0,
        sponsor_for_family = None\<rparr>,
       \<lparr>first_name = '''', last_name = '''', proportion = 0, family = 0,
        sponsor_for_family = None\<rparr>]) 0 = 2
   \<and> count_list (populate_pot
      [\<lparr>first_name = '''', last_name = '''', proportion = 100, family = 0,
        sponsor_for_family = None\<rparr>,
       \<lparr>first_name = '''', last_name = '''', proportion = 50, family = 0,
        sponsor_for_family = None\<rparr>,
       \<lparr>first_name = '''', last_name = '''', proportion = 0, family = 0,
        sponsor_for_family = None\<rparr>]) 1 = 1
   \<and> count_list (populate_pot
      [\<lparr>first_name = '''', last_name = '''', proportion = 100, family = 0,
        sponsor_for_family = None\<rparr>,
       \<lparr>first_name = '''', last_name = '''', proportion = 50, family = 0,
        sponsor_for_family = None\<rparr>,
       \<lparr>first_name = '''', last_name = '''', proportion = 0, family = 0,
        sponsor_for_family = None\<rparr>]) 2 = 0"
proof -
  let ?ms = "[\<lparr>first_name = '''', last_name = '''', proportion = 100, family = 0,
        sponsor_for_family = None\<rparr>,
       \<lparr>first_name = '''', last_name = '''', proportion = 50, family = 0,
        sponsor_for_family = None\<rparr>,
       \<lparr>first_name = '''', last_name = '''', proportion = 0, family = 0,
        sponsor_for_family = None\<rparr>]"
  have "count_list (populate_pot ?ms) 0 = 2"
    using populate_pot_quota [of 0 ?ms] by simp
  moreover have "count_list (populate_pot ?ms) 1 = 1"
    using populate_pot_quota [of 1 ?ms] by simp
  moreover have "count_list (populate_pot ?ms) 2 = 0"
    using populate_pot_quota [of 2 ?ms] by simp
  ultimately show ?thesis by simp
qed

end
